theory Spec2Isabelle
  imports Complex_Main "HOL-Library.Sublist" "HOL-Library.Code_Target_Nat"
begin

section \<open>JavaScript strings and object literals\<close>

text \<open>
  A JavaScript string is a sequence of UTF-16 code units, here a list of numbers; \<open>js\<close>
  turns a literal of ASCII text into it. White space is what \<^verbatim>\<open>\s\<close> and \<^verbatim>\<open>trim()\<close>
  recognise: tab, line feed, vertical tab, form feed, carriage return, space, no-break
  space, U+1680, U+2000 to U+200A, the line and paragraph separators, U+202F, U+205F,
  U+3000 and U+FEFF. Word characters are what \<^verbatim>\<open>\w\<close> recognises, digits what \<^verbatim>\<open>\d\<close>
  recognises: the ASCII letters, the ASCII digits and the underscore.
\<close>

type_synonym jsstring = "nat list"

definition js :: "string \<Rightarrow> jsstring" where
  "js s = map of_char s"

definition isLowerAlpha :: "nat \<Rightarrow> bool" where
  "isLowerAlpha c = (97 \<le> c \<and> c \<le> 122)"

definition isUpperAlpha :: "nat \<Rightarrow> bool" where
  "isUpperAlpha c = (65 \<le> c \<and> c \<le> 90)"

definition isDigit :: "nat \<Rightarrow> bool" where
  "isDigit c = (48 \<le> c \<and> c \<le> 57)"

definition isSpaceJS :: "nat \<Rightarrow> bool" where
  "isSpaceJS c =
     (c \<in> {9, 10, 11, 12, 13, 32, 160, 5760, 8232, 8233, 8239, 8287, 12288, 65279}
      \<or> (8192 \<le> c \<and> c \<le> 8202))"

definition isWordChar :: "nat \<Rightarrow> bool" where
  "isWordChar c = (isLowerAlpha c \<or> isUpperAlpha c \<or> isDigit c \<or> c = 95)"

text \<open>
  \<^verbatim>\<open>toUpperCase()\<close> and \<^verbatim>\<open>toLowerCase()\<close> follow the Unicode tables of the engine that runs
  the program. The model takes the two functions as given: a platform is a pair of
  functions on strings, and every definition whose source calls one of them has the
  platform as its first argument. What is proved for every platform holds for the
  engine's.
\<close>

record platform =
  toUpperCase :: "jsstring \<Rightarrow> jsstring"
  toLowerCase :: "jsstring \<Rightarrow> jsstring"

text \<open>
  On ASCII text the two functions exchange the letters \<^verbatim>\<open>a\<close> to \<^verbatim>\<open>z\<close> and \<^verbatim>\<open>A\<close> to \<^verbatim>\<open>Z\<close>
  and leave every other character. The examples, whose text is ASCII, are computed on
  the platform that does this to every string. The same letter map is how a regular
  expression of ASCII letters with the flag \<^verbatim>\<open>i\<close> compares: a letter matches its two
  ASCII forms and no other character.
\<close>

definition asciiUpperChar :: "nat \<Rightarrow> nat" where
  "asciiUpperChar c = (if isLowerAlpha c then c - 32 else c)"

definition asciiLowerChar :: "nat \<Rightarrow> nat" where
  "asciiLowerChar c = (if isUpperAlpha c then c + 32 else c)"

definition asciiUpperCase :: "jsstring \<Rightarrow> jsstring" where
  "asciiUpperCase s = map asciiUpperChar s"

definition asciiLowerCase :: "jsstring \<Rightarrow> jsstring" where
  "asciiLowerCase s = map asciiLowerChar s"

definition asciiPlatform :: platform where
  "asciiPlatform = \<lparr> toUpperCase = asciiUpperCase, toLowerCase = asciiLowerCase \<rparr>"

definition asciiText :: "jsstring \<Rightarrow> bool" where
  "asciiText s = list_all (\<lambda>c. c < 128) s"

definition asciiOnAscii :: "platform \<Rightarrow> bool" where
  "asciiOnAscii P =
     (\<forall>s. asciiText s \<longrightarrow>
        toUpperCase P s = asciiUpperCase s \<and> toLowerCase P s = asciiLowerCase s)"

definition trimJS :: "jsstring \<Rightarrow> jsstring" where
  "trimJS s = rev (dropWhile isSpaceJS (rev (dropWhile isSpaceJS s)))"

text \<open>
  What the idempotence of the team canonicalizers needs of \<^verbatim>\<open>toUpperCase()\<close>: upper-casing
  twice is upper-casing once, white space at the ends stays white space at the ends and
  nothing else becomes such, no letter \<^verbatim>\<open>a\<close> to \<^verbatim>\<open>z\<close> is left, and text of the letters
  \<^verbatim>\<open>A\<close> to \<^verbatim>\<open>Z\<close> is unchanged. The Unicode upper-case mapping has these properties.
\<close>

definition upperCaseLaws :: "platform \<Rightarrow> bool" where
  "upperCaseLaws P =
     ((\<forall>s. toUpperCase P (toUpperCase P s) = toUpperCase P s)
      \<and> (\<forall>s. toUpperCase P (trimJS s) = trimJS (toUpperCase P s))
      \<and> (\<forall>s. \<forall>c\<in>set (toUpperCase P s). \<not> isLowerAlpha c)
      \<and> (\<forall>s. list_all isUpperAlpha s \<longrightarrow> toUpperCase P s = s))"

text \<open>\<^verbatim>\<open>s.includes(t)\<close>: \<open>t\<close> occurs in \<open>s\<close> as a contiguous block.\<close>

fun includesJS :: "jsstring \<Rightarrow> jsstring \<Rightarrow> bool" where
  "includesJS [] t = (t = [])"
| "includesJS (c # cs) t = (prefix t (c # cs) \<or> includesJS cs t)"

text \<open>
  \<^verbatim>\<open>s.replace(/\s+/g, ' ')\<close>: every maximal run of white space becomes one space. The flag
  says whether the previous character belonged to a run that has been replaced already.
\<close>

fun collapseRuns :: "bool \<Rightarrow> jsstring \<Rightarrow> jsstring" where
  "collapseRuns inRun [] = []"
| "collapseRuns inRun (c # cs) =
     (if isSpaceJS c
      then (if inRun then collapseRuns True cs else 32 # collapseRuns True cs)
      else c # collapseRuns False cs)"

definition collapseWhitespace :: "jsstring \<Rightarrow> jsstring" where
  "collapseWhitespace s = collapseRuns False s"

text \<open>\<^verbatim>\<open>s.replace(/[^\w\s]/g, '')\<close>: drop what is neither a word character nor white space.\<close>

definition stripSpecial :: "jsstring \<Rightarrow> jsstring" where
  "stripSpecial s = filter (\<lambda>c. isWordChar c \<or> isSpaceJS c) s"

text \<open>
  A value read out of an object literal \<^verbatim>\<open>{ 'K': 'V', ... }\<close> by \<^verbatim>\<open>table[key]\<close> is the
  string stored under the key or, when the literal has no such key of its own, the member
  of \<^verbatim>\<open>Object.prototype\<close> of that name, or \<^verbatim>\<open>undefined\<close>. The inherited members are
  objects and functions, all truthy; two of them are the same value exactly when they have
  the same name.
\<close>

datatype jsval = JStr jsstring | JInherited jsstring

definition objectPrototypeKeys :: "jsstring list" where
  "objectPrototypeKeys =
     map js
       [''constructor'', ''__defineGetter__'', ''__defineSetter__'', ''hasOwnProperty'',
        ''__lookupGetter__'', ''__lookupSetter__'', ''isPrototypeOf'', ''propertyIsEnumerable'',
        ''toString'', ''valueOf'', ''__proto__'', ''toLocaleString'']"

text \<open>The entries of an object literal of strings, in the order written.\<close>

definition entries :: "(string \<times> string) list \<Rightarrow> (jsstring \<times> jsstring) list" where
  "entries kvs = map (\<lambda>(k, v). (js k, js v)) kvs"

definition objectGet :: "(jsstring \<times> jsstring) list \<Rightarrow> jsstring \<Rightarrow> jsval option" where
  "objectGet table key =
     (case map_of table key of
        Some v \<Rightarrow> Some (JStr v)
      | None \<Rightarrow> if key \<in> set objectPrototypeKeys then Some (JInherited key) else None)"

text \<open>\<^verbatim>\<open>table[key] || fallback\<close>: the empty string and \<^verbatim>\<open>undefined\<close> are falsy.\<close>

definition objectGetOr :: "(jsstring \<times> jsstring) list \<Rightarrow> jsstring \<Rightarrow> jsstring \<Rightarrow> jsval" where
  "objectGetOr table key fallback =
     (case objectGet table key of
        Some (JStr v) \<Rightarrow> if v = [] then JStr fallback else JStr v
      | Some (JInherited k) \<Rightarrow> JInherited k
      | None \<Rightarrow> JStr fallback)"

section \<open>The join of props with defense data\<close>

record DefenseData =
  dd_team :: jsstring
  dd_opponent :: jsstring
  dd_gameTime :: jsstring
  dd_position :: jsstring
  dd_rank :: jsstring

record 'n PrizePicksProp =
  pp_playerName :: jsstring
  pp_team :: jsstring
  pp_opponent :: jsstring
  pp_statCategory :: jsstring
  pp_line :: 'n
  pp_projectionId :: jsstring

record 'n UnderdogProp =
  ud_playerName :: jsstring
  ud_team :: jsstring
  ud_opponent :: jsstring
  ud_position :: "jsstring option"
  ud_stat :: jsstring
  ud_line :: 'n
  ud_gameTime :: "jsstring option"

record 'n MergedProp =
  mp_player :: jsstring
  mp_team :: jsstring
  mp_opponent :: jsstring
  mp_position :: jsstring
  mp_stat :: jsstring
  mp_line :: 'n
  mp_defenseStrength :: jsstring
  mp_projectionId :: "jsstring option"
  mp_gameTime :: "jsstring option"

definition normalizeStatForMatching :: "platform \<Rightarrow> jsstring \<Rightarrow> jsstring" where
  "normalizeStatForMatching P stat =
     trimJS (stripSpecial (collapseWhitespace (toLowerCase P stat)))"

definition teamVariations :: "(jsstring \<times> jsstring) list" where
  "teamVariations =
     entries
       [(''LAK'', ''LAK''), (''LA'', ''LAK''), (''NJD'', ''NJD''), (''NJ'', ''NJD''),
        (''NYI'', ''NYI''), (''NYR'', ''NYR''), (''SJS'', ''SJS''), (''SJ'', ''SJS''),
        (''TBL'', ''TBL''), (''TB'', ''TBL''), (''VGK'', ''VGK''), (''VEG'', ''VGK''),
        (''WSH'', ''WSH''), (''WAS'', ''WSH''), (''WPG'', ''WPG''), (''WIN'', ''WPG'')]"

definition normalizeTeamForMatching :: "platform \<Rightarrow> jsstring \<Rightarrow> jsval" where
  "normalizeTeamForMatching P team =
     (let upper = trimJS (toUpperCase P team) in objectGetOr teamVariations upper upper)"

definition statAliases :: "(jsstring \<times> jsstring list) list" where
  "statAliases =
     map (\<lambda>(key, aliases). (js key, map js aliases))
       [(''points'', [''pts'', ''point'', ''points'']),
        (''goals'', [''goal'', ''goals'']),
        (''assists'', [''asts'', ''assist'', ''assists'']),
        (''shots on goal'', [''sog'', ''shots'', ''shot'', ''shots on goal'', ''shot on goal'']),
        (''hits'', [''hit'', ''hits'']),
        (''blocked shots'', [''blocks'', ''blocked'', ''blocked shots'', ''block'']),
        (''time on ice'', [''toi'', ''time'', ''time on ice'']),
        (''faceoffs won'', [''fow'', ''faceoff won'', ''faceoffs won'', ''face off won'']),
        (''faceoffs lost'', [''fol'', ''faceoff lost'', ''faceoffs lost'', ''face off lost'']),
        (''faceoffs'', [''fo'', ''faceoff'', ''faceoffs'', ''face off'']),
        (''goals allowed'', [''ga'', ''goals allowed'', ''goal allowed'']),
        (''goalie saves'', [''saves'', ''sv'', ''save'', ''goalie saves'', ''goalie save''])]"

text \<open>The four predicates that \<^verbatim>\<open>findDefenseStrength\<close> hands to \<^verbatim>\<open>find\<close> and \<^verbatim>\<open>some\<close>.\<close>

definition exactStat :: "platform \<Rightarrow> jsstring \<Rightarrow> DefenseData \<Rightarrow> bool" where
  "exactStat P normalizedStat d = (normalizeStatForMatching P (dd_position d) = normalizedStat)"

definition partialStat :: "platform \<Rightarrow> jsstring \<Rightarrow> DefenseData \<Rightarrow> bool" where
  "partialStat P normalizedStat d =
     (let defenseStat = normalizeStatForMatching P (dd_position d)
      in includesJS defenseStat normalizedStat \<or> includesJS normalizedStat defenseStat
         \<or> defenseStat = normalizedStat)"

definition propMatchesAlias :: "jsstring list \<Rightarrow> jsstring \<Rightarrow> bool" where
  "propMatchesAlias aliases normalizedStat =
     list_ex (\<lambda>alias. normalizedStat = alias \<or> includesJS normalizedStat alias
                      \<or> includesJS alias normalizedStat) aliases"

definition aliasStat :: "platform \<Rightarrow> jsstring \<Rightarrow> jsstring list \<Rightarrow> DefenseData \<Rightarrow> bool" where
  "aliasStat P key aliases d =
     (let defenseStat = normalizeStatForMatching P (dd_position d)
      in defenseStat = key \<or> includesJS defenseStat key \<or> includesJS key defenseStat
         \<or> list_ex (\<lambda>alias. defenseStat = alias \<or> includesJS defenseStat alias) aliases)"

definition keyStat :: "platform \<Rightarrow> jsstring \<Rightarrow> DefenseData \<Rightarrow> bool" where
  "keyStat P key d =
     (let defenseStat = normalizeStatForMatching P (dd_position d)
      in defenseStat = key \<or> includesJS defenseStat key \<or> includesJS key defenseStat)"

text \<open>The first loop over the entries of \<^verbatim>\<open>statAliases\<close>, driven by the prop's statistic.\<close>

fun aliasForward ::
  "platform \<Rightarrow> (jsstring \<times> jsstring list) list \<Rightarrow> jsstring \<Rightarrow> DefenseData list
     \<Rightarrow> jsstring option" where
  "aliasForward P [] normalizedStat opponentMatches = None"
| "aliasForward P ((key, aliases) # rest) normalizedStat opponentMatches =
     (if propMatchesAlias aliases normalizedStat
      then (case find (aliasStat P key aliases) opponentMatches of
              Some aliasMatch \<Rightarrow> Some (dd_rank aliasMatch)
            | None \<Rightarrow> aliasForward P rest normalizedStat opponentMatches)
      else aliasForward P rest normalizedStat opponentMatches)"

text \<open>The second loop, driven by the defense records' statistics.\<close>

fun aliasReverse ::
  "platform \<Rightarrow> (jsstring \<times> jsstring list) list \<Rightarrow> jsstring \<Rightarrow> DefenseData list
     \<Rightarrow> jsstring option" where
  "aliasReverse P [] normalizedStat opponentMatches = None"
| "aliasReverse P ((key, aliases) # rest) normalizedStat opponentMatches =
     (case find (keyStat P key) opponentMatches of
        Some defenseStatMatches \<Rightarrow>
          if propMatchesAlias aliases normalizedStat then Some (dd_rank defenseStatMatches)
          else aliasReverse P rest normalizedStat opponentMatches
      | None \<Rightarrow> aliasReverse P rest normalizedStat opponentMatches)"

definition opponentMatchesOf :: "platform \<Rightarrow> DefenseData list \<Rightarrow> jsstring \<Rightarrow> DefenseData list" where
  "opponentMatchesOf P defenseData opponent =
     filter (\<lambda>d. normalizeTeamForMatching P (dd_opponent d) = normalizeTeamForMatching P opponent)
       defenseData"

text \<open>\<^verbatim>\<open>null\<close> is \<open>None\<close>. The parameter \<open>team\<close> is not used by the source either.\<close>

definition findDefenseStrength ::
  "platform \<Rightarrow> DefenseData list \<Rightarrow> jsstring \<Rightarrow> jsstring \<Rightarrow> jsstring \<Rightarrow> jsstring option" where
  "findDefenseStrength P defenseData team opponent statCategory =
     (if opponent = [] \<or> statCategory = [] then None
      else
        let normalizedStat = normalizeStatForMatching P statCategory;
            opponentMatches = opponentMatchesOf P defenseData opponent
        in if opponentMatches = [] then None
           else case find (exactStat P normalizedStat) opponentMatches of
                  Some exactMatch \<Rightarrow> Some (dd_rank exactMatch)
                | None \<Rightarrow>
                   (case find (partialStat P normalizedStat) opponentMatches of
                      Some partialMatch \<Rightarrow> Some (dd_rank partialMatch)
                    | None \<Rightarrow>
                       (case aliasForward P statAliases normalizedStat opponentMatches of
                          Some r \<Rightarrow> Some r
                        | None \<Rightarrow> aliasReverse P statAliases normalizedStat opponentMatches)))"

text \<open>\<^verbatim>\<open>defenseStrength || 'NA'\<close>: \<^verbatim>\<open>null\<close> and the empty string both give \<^verbatim>\<open>'NA'\<close>.\<close>

definition orNA :: "jsstring option \<Rightarrow> jsstring" where
  "orNA r = (case r of None \<Rightarrow> js ''NA'' | Some s \<Rightarrow> if s = [] then js ''NA'' else s)"

text \<open>
  The two merge functions map one row function over the props. Their console output is
  left out: it reads the two lists and changes nothing.
\<close>

definition mergePrizePicksRow ::
  "platform \<Rightarrow> DefenseData list \<Rightarrow> 'n PrizePicksProp \<Rightarrow> 'n MergedProp" where
  "mergePrizePicksRow P defenseData prop =
     \<lparr> mp_player = pp_playerName prop,
       mp_team = pp_team prop,
       mp_opponent = pp_opponent prop,
       mp_position = pp_statCategory prop,
       mp_stat = pp_statCategory prop,
       mp_line = pp_line prop,
       mp_defenseStrength =
         orNA (findDefenseStrength P defenseData (pp_team prop) (pp_opponent prop)
                 (pp_statCategory prop)),
       mp_projectionId = Some (pp_projectionId prop),
       mp_gameTime = None \<rparr>"

definition mergePrizePicksProps ::
  "platform \<Rightarrow> 'n PrizePicksProp list \<Rightarrow> DefenseData list \<Rightarrow> 'n MergedProp list" where
  "mergePrizePicksProps P props defenseData = map (mergePrizePicksRow P defenseData) props"

definition mergeUnderdogRow ::
  "platform \<Rightarrow> DefenseData list \<Rightarrow> 'n UnderdogProp \<Rightarrow> 'n MergedProp" where
  "mergeUnderdogRow P defenseData prop =
     \<lparr> mp_player = ud_playerName prop,
       mp_team = ud_team prop,
       mp_opponent = ud_opponent prop,
       mp_position = (case ud_position prop of
                        None \<Rightarrow> []
                      | Some p \<Rightarrow> p),
       mp_stat = ud_stat prop,
       mp_line = ud_line prop,
       mp_defenseStrength =
         orNA (findDefenseStrength P defenseData (ud_team prop) (ud_opponent prop)
                 (ud_stat prop)),
       mp_projectionId = None,
       mp_gameTime = ud_gameTime prop \<rparr>"

definition mergeUnderdogProps ::
  "platform \<Rightarrow> 'n UnderdogProp list \<Rightarrow> DefenseData list \<Rightarrow> 'n MergedProp list" where
  "mergeUnderdogProps P props defenseData = map (mergeUnderdogRow P defenseData) props"

text \<open>
  The tier structure in the words of the specification: a tier is a predicate on defense
  records, the tiers are tried in order over the records of the prop's opponent, and the
  first tier with a candidate answers with its first candidate in list order.
\<close>

fun firstCandidate :: "(DefenseData \<Rightarrow> bool) list \<Rightarrow> DefenseData list \<Rightarrow> jsstring option" where
  "firstCandidate [] records = None"
| "firstCandidate (tier # tiers) records =
     (case filter tier records of
        [] \<Rightarrow> firstCandidate tiers records
      | d # _ \<Rightarrow> Some (dd_rank d))"

definition substringStat :: "platform \<Rightarrow> jsstring \<Rightarrow> DefenseData \<Rightarrow> bool" where
  "substringStat P normalizedStat d =
     (sublist normalizedStat (normalizeStatForMatching P (dd_position d))
      \<or> sublist (normalizeStatForMatching P (dd_position d)) normalizedStat)"

text \<open>A record is a candidate of one alias group, forward (from the prop) or reverse.\<close>

definition forwardGroup ::
  "platform \<Rightarrow> jsstring \<Rightarrow> jsstring \<times> jsstring list \<Rightarrow> DefenseData \<Rightarrow> bool" where
  "forwardGroup P normalizedStat g d =
     (propMatchesAlias (snd g) normalizedStat \<and> aliasStat P (fst g) (snd g) d)"

definition reverseGroup ::
  "platform \<Rightarrow> jsstring \<Rightarrow> jsstring \<times> jsstring list \<Rightarrow> DefenseData \<Rightarrow> bool" where
  "reverseGroup P normalizedStat g d =
     (keyStat P (fst g) d \<and> propMatchesAlias (snd g) normalizedStat)"

text \<open>Tiers 3 and 4 as single tiers: a record is a candidate when some alias group makes it one.\<close>

definition forwardTier :: "platform \<Rightarrow> jsstring \<Rightarrow> DefenseData \<Rightarrow> bool" where
  "forwardTier P normalizedStat d = list_ex (\<lambda>g. forwardGroup P normalizedStat g d) statAliases"

definition reverseTier :: "platform \<Rightarrow> jsstring \<Rightarrow> DefenseData \<Rightarrow> bool" where
  "reverseTier P normalizedStat d = list_ex (\<lambda>g. reverseGroup P normalizedStat g d) statAliases"

definition joinByTiers ::
  "platform \<Rightarrow> DefenseData list \<Rightarrow> jsstring \<Rightarrow> jsstring \<Rightarrow> jsstring option" where
  "joinByTiers P defenseData opponent statCategory =
     (let normalizedStat = normalizeStatForMatching P statCategory
      in firstCandidate
           [exactStat P normalizedStat, substringStat P normalizedStat,
            forwardTier P normalizedStat, reverseTier P normalizedStat]
           (opponentMatchesOf P defenseData opponent))"

text \<open>The same with every alias group a tier of its own, in the order of the alias table.\<close>

definition joinByGroups ::
  "platform \<Rightarrow> DefenseData list \<Rightarrow> jsstring \<Rightarrow> jsstring \<Rightarrow> jsstring option" where
  "joinByGroups P defenseData opponent statCategory =
     (let normalizedStat = normalizeStatForMatching P statCategory
      in firstCandidate
           ([exactStat P normalizedStat, substringStat P normalizedStat]
            @ map (forwardGroup P normalizedStat) statAliases
            @ map (reverseGroup P normalizedStat) statAliases)
           (opponentMatchesOf P defenseData opponent))"

text \<open>Records of ASCII text for the examples.\<close>

definition mkDefense :: "string \<Rightarrow> string \<Rightarrow> string \<Rightarrow> string \<Rightarrow> DefenseData" where
  "mkDefense t opp stat r =
     \<lparr> dd_team = js t, dd_opponent = js opp, dd_gameTime = [], dd_position = js stat,
       dd_rank = js r \<rparr>"

definition mkPrize :: "string \<Rightarrow> string \<Rightarrow> string \<Rightarrow> real \<Rightarrow> real PrizePicksProp" where
  "mkPrize t opp stat l =
     \<lparr> pp_playerName = js ''Player'', pp_team = js t, pp_opponent = js opp,
       pp_statCategory = js stat, pp_line = l, pp_projectionId = js ''1'' \<rparr>"

definition mkUnderdog :: "string \<Rightarrow> string \<Rightarrow> string \<Rightarrow> real \<Rightarrow> real UnderdogProp" where
  "mkUnderdog t opp stat l =
     \<lparr> ud_playerName = js ''Player'', ud_team = js t, ud_opponent = js opp,
       ud_position = None, ud_stat = js stat, ud_line = l, ud_gameTime = None \<rparr>"

section \<open>The canonicalizers of the prop scrapers\<close>

definition teamMap :: "(jsstring \<times> jsstring) list" where
  "teamMap =
     entries
       [(''ARI'', ''ARI''), (''ATL'', ''WPG''), (''BOS'', ''BOS''), (''BUF'', ''BUF''),
        (''CGY'', ''CGY''), (''CAR'', ''CAR''), (''CHI'', ''CHI''), (''COL'', ''COL''),
        (''CBJ'', ''CBJ''), (''DAL'', ''DAL''), (''DET'', ''DET''), (''EDM'', ''EDM''),
        (''FLA'', ''FLA''), (''LAK'', ''LAK''), (''LA'', ''LAK''), (''MIN'', ''MIN''),
        (''MTL'', ''MTL''), (''NSH'', ''NSH''), (''NJD'', ''NJD''), (''NYI'', ''NYI''),
        (''NYR'', ''NYR''), (''OTT'', ''OTT''), (''PHI'', ''PHI''), (''PIT'', ''PIT''),
        (''SJS'', ''SJS''), (''SEA'', ''SEA''), (''STL'', ''STL''), (''TBL'', ''TBL''),
        (''TOR'', ''TOR''), (''UTA'', ''UTA''), (''VAN'', ''VAN''), (''VGK'', ''VGK''),
        (''WSH'', ''WSH''), (''WPG'', ''WPG'')]"

definition normalizeTeamName :: "platform \<Rightarrow> jsstring \<Rightarrow> jsval" where
  "normalizeTeamName P teamName =
     (let upper = trimJS (toUpperCase P teamName) in objectGetOr teamMap upper upper)"

definition statMap :: "(jsstring \<times> jsstring) list" where
  "statMap =
     entries
       [(''Points'', ''Points''), (''Pts'', ''Points''), (''Goals'', ''Goals''),
        (''Assists'', ''Assists''), (''Asts'', ''Assists''),
        (''Shots on Goal'', ''Shots on Goal''), (''SOG'', ''Shots on Goal''),
        (''Shots'', ''Shots on Goal''), (''Hits'', ''Hits''),
        (''Blocked Shots'', ''Blocked Shots''), (''Blocks'', ''Blocked Shots''),
        (''Time On Ice'', ''Time On Ice''), (''TOI'', ''Time On Ice''),
        (''Faceoffs Won'', ''Faceoffs Won''), (''FOW'', ''Faceoffs Won''),
        (''Faceoffs Lost'', ''Faceoffs Lost''), (''FOL'', ''Faceoffs Lost''),
        (''Faceoffs'', ''Faceoffs''), (''FO'', ''Faceoffs''),
        (''Goals Allowed'', ''Goals Allowed''), (''GA'', ''Goals Allowed''),
        (''Saves'', ''Goalie Saves''), (''SV'', ''Goalie Saves''),
        (''Goalie Saves'', ''Goalie Saves'')]"

definition normalizeStatType :: "jsstring \<Rightarrow> jsval" where
  "normalizeStatType statType = objectGetOr statMap statType statType"

text \<open>
  A canonicalizer applied to its own result receives a value, not necessarily a string.
  On an inherited member \<^verbatim>\<open>.toUpperCase()\<close> does not exist and the call raises a
  \<^verbatim>\<open>TypeError\<close>; as a property key the member is converted to the text the engine prints
  for it, and that text is looked up.
\<close>

datatype error = TypeError

definition inheritedToString :: "jsstring \<Rightarrow> jsstring" where
  "inheritedToString k =
     (if k = js ''__proto__'' then js ''[object Object]''
      else if k = js ''constructor'' then js ''function Object() { [native code] }''
      else js ''function '' @ k @ js ''() { [native code] }'')"

definition normalizeTeamNameVal :: "platform \<Rightarrow> jsval \<Rightarrow> error + jsval" where
  "normalizeTeamNameVal P v =
     (case v of JStr s \<Rightarrow> Inr (normalizeTeamName P s) | JInherited k \<Rightarrow> Inl TypeError)"

definition normalizeTeamForMatchingVal :: "platform \<Rightarrow> jsval \<Rightarrow> error + jsval" where
  "normalizeTeamForMatchingVal P v =
     (case v of JStr s \<Rightarrow> Inr (normalizeTeamForMatching P s) | JInherited k \<Rightarrow> Inl TypeError)"

definition normalizeStatTypeVal :: "jsval \<Rightarrow> jsval" where
  "normalizeStatTypeVal v =
     (case v of
        JStr s \<Rightarrow> normalizeStatType s
      | JInherited k \<Rightarrow>
         (case objectGet statMap (inheritedToString k) of
            Some (JStr w) \<Rightarrow> if w = [] then JInherited k else JStr w
          | Some (JInherited k') \<Rightarrow> JInherited k'
          | None \<Rightarrow> JInherited k))"

section \<open>The extraction of defense ranks from a player page\<close>

text \<open>
  \<^verbatim>\<open>rank.match(/(\d+)/)\<close> finds the first run of digits and \<^verbatim>\<open>parseInt\<close> reads it in base
  ten. The number is compared with 24 and 32 only, which the rounding of very long digit
  runs does not affect, so it is read as a natural number.
\<close>

definition firstDigits :: "jsstring \<Rightarrow> jsstring" where
  "firstDigits s = takeWhile isDigit (dropWhile (\<lambda>c. \<not> isDigit c) s)"

definition parseInt10 :: "jsstring \<Rightarrow> nat" where
  "parseInt10 ds = foldl (\<lambda>n c. 10 * n + (c - 48)) 0 ds"

definition isRankInRange :: "jsstring \<Rightarrow> bool" where
  "isRankInRange rank =
     (if list_ex isDigit rank
      then (let num = parseInt10 (firstDigits rank) in num \<ge> 24 \<and> num \<le> 32)
      else False)"

text \<open>
  The rank normalization written inline in the table strategy of both extractors:
  \<^verbatim>\<open>if (!/th|st|nd|rd/i.test(rank) && /\d+/.test(rank))
    rank = rank.replace(/\d+/, (m) => m + 'th');\<close>
\<close>

definition hasOrdinalText :: "jsstring \<Rightarrow> bool" where
  "hasOrdinalText s =
     (let l = asciiLowerCase s
      in includesJS l (js ''th'') \<or> includesJS l (js ''st'') \<or> includesJS l (js ''nd'')
         \<or> includesJS l (js ''rd''))"

definition appendThToFirstDigits :: "jsstring \<Rightarrow> jsstring" where
  "appendThToFirstDigits s =
     takeWhile (\<lambda>c. \<not> isDigit c) s @ firstDigits s @ js ''th''
       @ dropWhile isDigit (dropWhile (\<lambda>c. \<not> isDigit c) s)"

definition normalizeRank :: "jsstring \<Rightarrow> jsstring" where
  "normalizeRank rankText =
     (if \<not> hasOrdinalText rankText \<and> list_ex isDigit rankText
      then appendThToFirstDigits rankText
      else rankText)"

text \<open>
  The ordinal suffix of a number by the English rule, for comparison: 11, 12 and 13 take
  \<^verbatim>\<open>th\<close>, otherwise a last digit 1, 2 or 3 takes \<^verbatim>\<open>st\<close>, \<^verbatim>\<open>nd\<close> or \<^verbatim>\<open>rd\<close>.
\<close>

definition ordinalSuffix :: "nat \<Rightarrow> jsstring" where
  "ordinalSuffix n =
     (if n mod 100 \<in> {11, 12, 13} then js ''th''
      else if n mod 10 = 1 then js ''st''
      else if n mod 10 = 2 then js ''nd''
      else if n mod 10 = 3 then js ''rd''
      else js ''th'')"

text \<open>
  A row as the extractors return it, and a record as \<^verbatim>\<open>scrapeDefenseData\<close> returns it (the
  scraper's own \<^verbatim>\<open>DefenseData\<close>, with a field \<^verbatim>\<open>stat\<close>).
\<close>

record DefenseRow =
  row_position :: jsstring
  row_rank :: jsstring

record ScrapedDefense =
  sd_team :: jsstring
  sd_opponent :: jsstring
  sd_gameTime :: jsstring
  sd_stat :: jsstring
  sd_rank :: jsstring

text \<open>
  The rendered page is outside the program. What \<^verbatim>\<open>scrapeDefenseData\<close> observes of it is
  given as a record: whether a stretch of unguarded page calls completes (\<open>False\<close>: one of
  them throws), and what each extraction returns (\<open>None\<close>: it throws).
  \<^item> \<open>page_setup\<close>: navigation, layout fixes and the click on the Defense tab, up to the
    loop over the positions;
  \<^item> \<open>page_prepare position\<close>: selecting the position and scrolling, inside the loop's
    \<^verbatim>\<open>try\<close>, up to the call of the extractor;
  \<^item> \<open>page_extract position\<close>: \<^verbatim>\<open>extractDefenseDataFromPage\<close> in the loop;
  \<^item> \<open>page_extractAll\<close>: \<^verbatim>\<open>extractDefenseDataFromPage\<close> after the loop;
  \<^item> \<open>page_settle\<close>: the waits and the check of the active tab after that;
  \<^item> \<open>page_isClosed\<close>: \<^verbatim>\<open>page.isClosed()\<close>;
  \<^item> \<open>page_original\<close>: the inline extraction (the "original extraction method").
\<close>

record Page =
  page_setup :: bool
  page_prepare :: "jsstring \<Rightarrow> bool"
  page_extract :: "jsstring \<Rightarrow> DefenseRow list option"
  page_extractAll :: "DefenseRow list option"
  page_settle :: bool
  page_isClosed :: bool
  page_original :: "DefenseRow list option"

text \<open>The extraction attempts of a run are logged beside the rows, in the order made.\<close>

datatype attempt = PositionExtract jsstring | UnfilteredExtract | OriginalExtract

type_synonym scrapeState = "DefenseRow list \<times> attempt list"

definition positions :: "jsstring list" where
  "positions = map js [''LW'', ''RW'', ''C'', ''D'', ''G'']"

definition positionPass :: "Page \<Rightarrow> scrapeState \<Rightarrow> jsstring \<Rightarrow> scrapeState" where
  "positionPass page st position =
     (let (allDefenseRows, log) = st
      in if \<not> page_prepare page position then (allDefenseRows, log)
         else case page_extract page position of
                None \<Rightarrow> (allDefenseRows, log @ [PositionExtract position])
              | Some positionDefenseRows \<Rightarrow>
                  (allDefenseRows
                     @ map (\<lambda>row. \<lparr> row_position = position @ js '' - '' @ row_position row,
                                     row_rank = row_rank row \<rparr>)
                         (filter (\<lambda>row. isRankInRange (row_rank row)) positionDefenseRows),
                   log @ [PositionExtract position]))"

definition positionPasses :: "Page \<Rightarrow> scrapeState" where
  "positionPasses page = foldl (positionPass page) ([], []) positions"

definition toScraped :: "jsstring \<Rightarrow> jsstring \<Rightarrow> jsstring \<Rightarrow> DefenseRow \<Rightarrow> ScrapedDefense" where
  "toScraped team opponent gameTime row =
     \<lparr> sd_team = team, sd_opponent = opponent, sd_gameTime = gameTime,
       sd_stat = row_position row, sd_rank = row_rank row \<rparr>"

text \<open>
  \<^verbatim>\<open>scrapeDefenseData\<close> from the loop on. An exception outside the loop's \<^verbatim>\<open>try\<close> reaches the
  \<^verbatim>\<open>catch\<close> of the whole function, which returns the empty list. The model returns the
  log of the attempts beside the records; \<open>playerUrl\<close> is where the page was loaded from.
\<close>

definition afterPasses ::
  "Page \<Rightarrow> jsstring \<Rightarrow> jsstring \<Rightarrow> jsstring \<Rightarrow> scrapeState
     \<Rightarrow> ScrapedDefense list \<times> attempt list" where
  "afterPasses page team opponent gameTime st =
     (let (rows0, log0) = st
      in case (if rows0 = []
               then (case page_extractAll page of
                       None \<Rightarrow> None
                     | Some allRows \<Rightarrow>
                         Some (filter (\<lambda>row. isRankInRange (row_rank row)) allRows))
               else Some rows0) of
           None \<Rightarrow> ([], log0 @ [UnfilteredExtract])
         | Some rows1 \<Rightarrow>
            (let log1 = (if rows0 = [] then log0 @ [UnfilteredExtract] else log0)
             in if \<not> page_settle page then ([], log1)
                else if page_isClosed page then ([], log1)
                else if rows1 = []
                then (case page_original page of
                        None \<Rightarrow> ([], log1 @ [OriginalExtract])
                      | Some fallbackRows \<Rightarrow>
                          (map (toScraped team opponent gameTime) fallbackRows,
                           log1 @ [OriginalExtract]))
                else (map (toScraped team opponent gameTime) rows1, log1)))"

definition scrapeDefenseData ::
  "Page \<Rightarrow> jsstring \<Rightarrow> jsstring \<Rightarrow> jsstring \<Rightarrow> jsstring
     \<Rightarrow> ScrapedDefense list \<times> attempt list" where
  "scrapeDefenseData page playerUrl team opponent gameTime =
     (if \<not> page_setup page then ([], [])
      else afterPasses page team opponent gameTime (positionPasses page))"

definition isUnfiltered :: "attempt \<Rightarrow> bool" where
  "isUnfiltered a = (case a of PositionExtract p \<Rightarrow> False | _ \<Rightarrow> True)"

definition unfilteredAttempts :: "ScrapedDefense list \<times> attempt list \<Rightarrow> attempt list" where
  "unfilteredAttempts result = filter isUnfiltered (snd result)"

definition mkRow :: "string \<Rightarrow> string \<Rightarrow> DefenseRow" where
  "mkRow stat r = \<lparr> row_position = js stat, row_rank = js r \<rparr>"

text \<open>
  Two pages for the examples. The first shows the single row \<^verbatim>\<open>Hits 12th\<close>, which every
  extraction reads; the second shows no row at all.
\<close>

definition pageHits12 :: Page where
  "pageHits12 =
     \<lparr> page_setup = True, page_prepare = (\<lambda>p. True),
       page_extract = (\<lambda>p. Some [mkRow ''Hits'' ''12th'']),
       page_extractAll = Some [mkRow ''Hits'' ''12th''], page_settle = True,
       page_isClosed = False, page_original = Some [mkRow ''Hits'' ''12th''] \<rparr>"

definition pageEmpty :: Page where
  "pageEmpty =
     \<lparr> page_setup = True, page_prepare = (\<lambda>p. True), page_extract = (\<lambda>p. Some []),
       page_extractAll = Some [], page_settle = True,
       page_isClosed = False, page_original = Some [] \<rparr>"

text \<open>
  Whether a run whose position passes found nothing reaches the original extraction: the
  extraction after the loop returned, none of its ranks is in the band, and the page
  settled and is still open.
\<close>

definition originalReached :: "Page \<Rightarrow> bool" where
  "originalReached page =
     (case page_extractAll page of
        None \<Rightarrow> False
      | Some allRows \<Rightarrow>
          filter (\<lambda>row. isRankInRange (row_rank row)) allRows = []
          \<and> page_settle page \<and> \<not> page_isClosed page)"

definition blocksThenSog :: "DefenseData list" where
  "blocksThenSog =
     [mkDefense ''BOS'' ''TOR'' ''Blocks'' ''24th'', mkDefense ''BOS'' ''TOR'' ''SOG'' ''25th'']"

section \<open>Properties of the join\<close>

lemma includesJS_sublist: "includesJS s t \<longleftrightarrow> sublist t s"
  by (induction s) (auto simp: sublist_Cons_right)

lemma partialStat_substring: "partialStat P ns d = substringStat P ns d"
  by (auto simp: partialStat_def substringStat_def includesJS_sublist Let_def)

lemma find_filter: "find Q xs = (case filter Q xs of [] \<Rightarrow> None | x # _ \<Rightarrow> Some x)"
  by (induction xs) auto

lemma firstCandidate_append:
  "firstCandidate (ts @ us) om =
     (case firstCandidate ts om of Some r \<Rightarrow> Some r | None \<Rightarrow> firstCandidate us om)"
  by (induction ts) (auto split: list.splits)

lemma firstCandidate_empty: "firstCandidate ts [] = None"
  by (induction ts) auto

lemma firstCandidate_rank:
  "firstCandidate ts om = Some r \<Longrightarrow> \<exists>d\<in>set om. dd_rank d = r"
proof (induction ts)
  case Nil
  then show ?case by simp
next
  case (Cons t ts)
  show ?case
  proof (cases "filter t om")
    case Nil
    with Cons show ?thesis by simp
  next
    case (Cons d ds)
    then have "d \<in> set (filter t om)" by simp
    then have "d \<in> set om" by simp
    moreover from Cons Cons.prems have "dd_rank d = r" by simp
    ultimately show ?thesis by blast
  qed
qed

lemma aliasForward_groups:
  "aliasForward P tbl ns om = firstCandidate (map (forwardGroup P ns) tbl) om"
proof (induction tbl)
  case Nil
  show ?case by simp
next
  case (Cons g tbl)
  obtain key aliases where g: "g = (key, aliases)" by (cases g)
  show ?case
  proof (cases "propMatchesAlias aliases ns")
    case True
    then have "filter (forwardGroup P ns g) om = filter (aliasStat P key aliases) om"
      by (intro filter_cong refl) (simp add: forwardGroup_def g)
    with True Cons show ?thesis
      by (simp add: g find_filter split: list.splits)
  next
    case False
    then have "filter (forwardGroup P ns g) om = []"
      by (simp add: forwardGroup_def g filter_empty_conv)
    with False Cons show ?thesis
      by (simp add: g)
  qed
qed

lemma aliasReverse_groups:
  "aliasReverse P tbl ns om = firstCandidate (map (reverseGroup P ns) tbl) om"
proof (induction tbl)
  case Nil
  show ?case by simp
next
  case (Cons g tbl)
  obtain key aliases where g: "g = (key, aliases)" by (cases g)
  show ?case
  proof (cases "propMatchesAlias aliases ns")
    case True
    then have "filter (reverseGroup P ns g) om = filter (keyStat P key) om"
      by (intro filter_cong refl) (simp add: reverseGroup_def g)
    with True Cons show ?thesis
      by (simp add: g find_filter split: list.splits)
  next
    case False
    then have "filter (reverseGroup P ns g) om = []"
      by (simp add: reverseGroup_def g filter_empty_conv)
    with False Cons show ?thesis
      by (simp add: g find_filter split: list.splits)
  qed
qed

lemma findDefenseStrength_joinByGroups:
  "findDefenseStrength P defenseData team opponent statCategory =
     (if opponent = [] \<or> statCategory = [] then None
      else joinByGroups P defenseData opponent statCategory)"
proof (cases "opponentMatchesOf P defenseData opponent = []")
  case True
  then show ?thesis
    by (simp add: findDefenseStrength_def joinByGroups_def Let_def firstCandidate_empty)
next
  case False
  have ps: "partialStat P ns = substringStat P ns" for ns
    by (rule ext) (rule partialStat_substring)
  from False show ?thesis
    by (simp add: findDefenseStrength_def joinByGroups_def Let_def find_filter ps
        firstCandidate_append aliasForward_groups aliasReverse_groups
        split: list.splits option.splits)
qed

text \<open>
  The second loop of \<^verbatim>\<open>findDefenseStrength\<close> never answers: a record and a group it would
  answer with have answered in the first loop already.
\<close>

lemma keyStat_aliasStat: "keyStat P key d \<Longrightarrow> aliasStat P key aliases d"
  by (auto simp: keyStat_def aliasStat_def Let_def)

lemma aliasReverse_dead:
  "aliasForward P tbl ns om = None \<Longrightarrow> aliasReverse P tbl ns om = None"
proof (induction tbl)
  case Nil
  show ?case by simp
next
  case (Cons g tbl)
  obtain key aliases where g: "g = (key, aliases)" by (cases g)
  show ?case
  proof (cases "propMatchesAlias aliases ns")
    case True
    with Cons.prems have none: "find (aliasStat P key aliases) om = None"
      and rest: "aliasForward P tbl ns om = None"
      by (auto simp: g split: option.splits)
    from none have "find (keyStat P key) om = None"
      by (auto simp: find_None_iff dest: keyStat_aliasStat)
    with rest Cons.IH show ?thesis by (simp add: g)
  next
    case False
    with Cons show ?thesis by (simp add: g split: option.splits)
  qed
qed

lemma findDefenseStrength_from_opponent:
  assumes "findDefenseStrength P defenseData team opponent statCategory = Some r"
  shows "\<exists>d\<in>set defenseData.
           dd_rank d = r
           \<and> normalizeTeamForMatching P (dd_opponent d) = normalizeTeamForMatching P opponent"
proof -
  from assms have "joinByGroups P defenseData opponent statCategory = Some r"
    by (simp add: findDefenseStrength_joinByGroups split: if_splits)
  then obtain d where "d \<in> set (opponentMatchesOf P defenseData opponent)" and "dd_rank d = r"
    unfolding joinByGroups_def Let_def by (blast dest: firstCandidate_rank)
  then show ?thesis
    by (auto simp: opponentMatchesOf_def)
qed

lemma orNA_not_NA: "orNA x \<noteq> js ''NA'' \<Longrightarrow> x = Some (orNA x)"
  by (auto simp: orNA_def split: option.splits if_splits)

text \<open>
  The examples below are computed on the platform of the ASCII letter maps. Their text is
  ASCII, and on ASCII text every platform whose case functions are the ASCII ones there,
  the engine's among them, gives the same answer.
\<close>

lemma firstCandidate_cong:
  assumes "list_all2 (\<lambda>t u. \<forall>d\<in>set om. t d = u d) ts us"
  shows "firstCandidate ts om = firstCandidate us om"
  using assms
proof (induction ts us rule: list_all2_induct)
  case Nil
  show ?case by simp
next
  case (Cons t ts u us)
  then have "filter t om = filter u om"
    by (intro filter_cong refl) simp
  with Cons show ?case by (simp split: list.splits)
qed

lemma asciiOnAscii_asciiPlatform: "asciiOnAscii asciiPlatform"
  by (simp add: asciiOnAscii_def asciiPlatform_def)

lemma normalizeTeamForMatching_ascii:
  "asciiOnAscii P \<Longrightarrow> asciiText s \<Longrightarrow>
     normalizeTeamForMatching P s = normalizeTeamForMatching asciiPlatform s"
  by (simp add: normalizeTeamForMatching_def asciiOnAscii_def asciiPlatform_def)

lemma normalizeStatForMatching_ascii:
  "asciiOnAscii P \<Longrightarrow> asciiText s \<Longrightarrow>
     normalizeStatForMatching P s = normalizeStatForMatching asciiPlatform s"
  by (simp add: normalizeStatForMatching_def asciiOnAscii_def asciiPlatform_def)

lemma findDefenseStrength_ascii:
  assumes P: "asciiOnAscii P"
    and dd: "\<forall>d\<in>set defenseData. asciiText (dd_opponent d) \<and> asciiText (dd_position d)"
    and opp: "asciiText opponent" and stat: "asciiText statCategory"
  shows "findDefenseStrength P defenseData team opponent statCategory
           = findDefenseStrength asciiPlatform defenseData team opponent statCategory"
proof -
  let ?A = asciiPlatform
  have om: "opponentMatchesOf P defenseData opponent = opponentMatchesOf ?A defenseData opponent"
    unfolding opponentMatchesOf_def
    by (intro filter_cong refl) (simp add: normalizeTeamForMatching_ascii P dd opp)
  have ns: "normalizeStatForMatching P statCategory = normalizeStatForMatching ?A statCategory"
    by (rule normalizeStatForMatching_ascii [OF P stat])
  have pos: "normalizeStatForMatching P (dd_position d) = normalizeStatForMatching ?A (dd_position d)"
    if "d \<in> set (opponentMatchesOf ?A defenseData opponent)" for d
    using that dd by (simp add: opponentMatchesOf_def normalizeStatForMatching_ascii [OF P])
  let ?R = "\<lambda>t u. \<forall>d\<in>set (opponentMatchesOf ?A defenseData opponent). t d = u d"
  let ?n = "normalizeStatForMatching ?A statCategory"
  have "list_all2 ?R
          ([exactStat P ?n, substringStat P ?n] @ map (forwardGroup P ?n) statAliases
             @ map (reverseGroup P ?n) statAliases)
          ([exactStat ?A ?n, substringStat ?A ?n] @ map (forwardGroup ?A ?n) statAliases
             @ map (reverseGroup ?A ?n) statAliases)"
    by (intro list_all2_appendI)
      (simp_all add: list_all2_map1 list_all2_map2 list_all2_same exactStat_def
        substringStat_def forwardGroup_def reverseGroup_def aliasStat_def keyStat_def pos)
  then have "joinByGroups P defenseData opponent statCategory
               = joinByGroups ?A defenseData opponent statCategory"
    unfolding joinByGroups_def Let_def om ns by (rule firstCandidate_cong)
  then show ?thesis
    by (simp add: findDefenseStrength_joinByGroups)
qed

lemma joinByTiers_ascii:
  assumes P: "asciiOnAscii P"
    and dd: "\<forall>d\<in>set defenseData. asciiText (dd_opponent d) \<and> asciiText (dd_position d)"
    and opp: "asciiText opponent" and stat: "asciiText statCategory"
  shows "joinByTiers P defenseData opponent statCategory
           = joinByTiers asciiPlatform defenseData opponent statCategory"
proof -
  let ?A = asciiPlatform
  have om: "opponentMatchesOf P defenseData opponent = opponentMatchesOf ?A defenseData opponent"
    unfolding opponentMatchesOf_def
    by (intro filter_cong refl) (simp add: normalizeTeamForMatching_ascii P dd opp)
  have ns: "normalizeStatForMatching P statCategory = normalizeStatForMatching ?A statCategory"
    by (rule normalizeStatForMatching_ascii [OF P stat])
  have pos: "normalizeStatForMatching P (dd_position d) = normalizeStatForMatching ?A (dd_position d)"
    if "d \<in> set (opponentMatchesOf ?A defenseData opponent)" for d
    using that dd by (simp add: opponentMatchesOf_def normalizeStatForMatching_ascii [OF P])
  let ?n = "normalizeStatForMatching ?A statCategory"
  have "list_all2 (\<lambda>t u. \<forall>d\<in>set (opponentMatchesOf ?A defenseData opponent). t d = u d)
          [exactStat P ?n, substringStat P ?n, forwardTier P ?n, reverseTier P ?n]
          [exactStat ?A ?n, substringStat ?A ?n, forwardTier ?A ?n, reverseTier ?A ?n]"
    by (simp add: exactStat_def substringStat_def forwardTier_def reverseTier_def
        forwardGroup_def reverseGroup_def aliasStat_def keyStat_def pos)
  then show ?thesis
    unfolding joinByTiers_def Let_def om ns by (rule firstCandidate_cong)
qed

lemma mergePrizePicksRow_ascii:
  assumes "asciiOnAscii P"
    and "\<forall>d\<in>set defenseData. asciiText (dd_opponent d) \<and> asciiText (dd_position d)"
    and "asciiText (pp_opponent prop)" and "asciiText (pp_statCategory prop)"
  shows "mergePrizePicksRow P defenseData prop = mergePrizePicksRow asciiPlatform defenseData prop"
  using assms by (simp add: mergePrizePicksRow_def findDefenseStrength_ascii)

lemma mergeUnderdogRow_ascii:
  assumes "asciiOnAscii P"
    and "\<forall>d\<in>set defenseData. asciiText (dd_opponent d) \<and> asciiText (dd_position d)"
    and "asciiText (ud_opponent prop)" and "asciiText (ud_stat prop)"
  shows "mergeUnderdogRow P defenseData prop = mergeUnderdogRow asciiPlatform defenseData prop"
  using assms by (simp add: mergeUnderdogRow_def findDefenseStrength_ascii)

lemma examples_asciiText:
  "list_all asciiText
     (map js [''BOS'', ''TOR'', ''SOG'', ''Shots'', ''Shots on Goal'', ''Blocks'', '' atl ''])"
  by code_simp

text \<open>
  C3, as stated: the four tiers are tried in order and the winning tier answers with its
  first candidate in the order of the defense list. It fails for the prop statistic
  \<^verbatim>\<open>Shots\<close> against the records \<^verbatim>\<open>Blocks\<close> (24th) and \<^verbatim>\<open>SOG\<close> (25th) of the opponent:
  no record is an exact or a substring match, both are alias candidates, and the code
  answers with the second one, because the shots-on-goal group precedes the
  blocked-shots group in the alias table.
\<close>

theorem findDefenseStrength_tiers_counterexample:
  "findDefenseStrength asciiPlatform blocksThenSog (js ''BOS'') (js ''TOR'') (js ''Shots'')
     = Some (js ''25th'')
   \<and> joinByTiers asciiPlatform blocksThenSog (js ''TOR'') (js ''Shots'') = Some (js ''24th'')"
  by code_simp

text \<open>
  C3, amended: for a prop with an opponent and a statistic, the tiers are tried in order
  over the records of the prop's opponent: exact equality of the normalized statistics,
  then substring containment in either direction, then the alias groups one by one in the
  order of the alias table driven from the prop's statistic, then the alias groups one by
  one driven from the record's statistic; the first of these with a candidate answers
  with its first candidate in the order of the defense list, and without any the answer
  is \<^verbatim>\<open>null\<close>. This holds on every platform, for strings of any characters.
\<close>

theorem findDefenseStrength_group_tiers:
  assumes "opponent \<noteq> []" and "statCategory \<noteq> []"
  shows "findDefenseStrength P defenseData team opponent statCategory
           = joinByGroups P defenseData opponent statCategory"
  using assms by (simp add: findDefenseStrength_joinByGroups)

theorem findDefenseStrength_group_tiers_witness:
  "js ''TOR'' \<noteq> [] \<and> js ''Shots'' \<noteq> []
   \<and> findDefenseStrength asciiPlatform blocksThenSog (js ''BOS'') (js ''TOR'') (js ''Shots'')
       = Some (js ''25th'')
   \<and> joinByGroups asciiPlatform blocksThenSog (js ''TOR'') (js ''Shots'') = Some (js ''25th'')"
proof -
  have a: "js ''TOR'' \<noteq> []" and b: "js ''Shots'' \<noteq> []" by (simp_all add: js_def)
  have c: "findDefenseStrength asciiPlatform blocksThenSog (js ''BOS'') (js ''TOR'') (js ''Shots'')
             = Some (js ''25th'')"
    by code_simp
  from findDefenseStrength_group_tiers [OF a b, of asciiPlatform blocksThenSog "js ''BOS''"] a b c
  show ?thesis by simp
qed

text \<open>
  C4, as stated: the prop of BOS against TOR for \<^verbatim>\<open>SOG\<close> joined with the record
  \<^verbatim>\<open>{team: TOR, opponent: BOS, Shots on Goal, 25th}\<close> gets the rank 25th. The join compares
  the record's \<^verbatim>\<open>opponent\<close> with the prop's \<^verbatim>\<open>opponent\<close>, BOS with TOR here, so the record is
  no candidate and the result is \<^verbatim>\<open>NA\<close>.
\<close>

theorem scenario_counterexample:
  "map mp_defenseStrength
     (mergePrizePicksProps asciiPlatform [mkPrize ''BOS'' ''TOR'' ''SOG'' 2.5]
        [mkDefense ''TOR'' ''BOS'' ''Shots on Goal'' ''25th''])
   = [js ''NA'']"
  by code_simp

text \<open>
  C4, amended: joined with the record \<^verbatim>\<open>{team: BOS, opponent: TOR, Shots on Goal, 25th}\<close>,
  whose opponent is the prop's opponent, the prop gets the rank 25th; the record is neither
  an exact nor a substring match, and it is the candidate of the shots-on-goal alias group
  in the loop driven from the prop's statistic.
\<close>

theorem scenario_alias_group:
  "map mp_defenseStrength
     (mergePrizePicksProps asciiPlatform [mkPrize ''BOS'' ''TOR'' ''SOG'' 2.5]
        [mkDefense ''BOS'' ''TOR'' ''Shots on Goal'' ''25th''])
   = [js ''25th'']
   \<and> \<not> exactStat asciiPlatform (normalizeStatForMatching asciiPlatform (js ''SOG''))
         (mkDefense ''BOS'' ''TOR'' ''Shots on Goal'' ''25th'')
   \<and> \<not> partialStat asciiPlatform (normalizeStatForMatching asciiPlatform (js ''SOG''))
         (mkDefense ''BOS'' ''TOR'' ''Shots on Goal'' ''25th'')
   \<and> map fst
        (filter (\<lambda>g. forwardGroup asciiPlatform (normalizeStatForMatching asciiPlatform (js ''SOG'')) g
                      (mkDefense ''BOS'' ''TOR'' ''Shots on Goal'' ''25th'')) statAliases)
       = [js ''shots on goal'']
   \<and> aliasForward asciiPlatform statAliases (normalizeStatForMatching asciiPlatform (js ''SOG''))
         [mkDefense ''BOS'' ''TOR'' ''Shots on Goal'' ''25th''] = Some (js ''25th'')"
  by code_simp

text \<open>
  C5: each merge function returns one merged row per prop, in the order of the props,
  carrying the prop's player, team, opponent, statistic and line; a merge of a
  concatenation is the concatenation of the merges. The functions are total and have no
  failing branch, and they build new rows without writing to their arguments.
\<close>

theorem merge_one_row_per_prop:
  "length (mergePrizePicksProps P props defenseData) = length props
   \<and> map mp_player (mergePrizePicksProps P props defenseData) = map pp_playerName props
   \<and> map mp_team (mergePrizePicksProps P props defenseData) = map pp_team props
   \<and> map mp_opponent (mergePrizePicksProps P props defenseData) = map pp_opponent props
   \<and> map mp_stat (mergePrizePicksProps P props defenseData) = map pp_statCategory props
   \<and> map mp_line (mergePrizePicksProps P props defenseData) = map pp_line props
   \<and> mergePrizePicksProps P (props @ props2) defenseData
       = mergePrizePicksProps P props defenseData @ mergePrizePicksProps P props2 defenseData
   \<and> length (mergeUnderdogProps P uprops defenseData) = length uprops
   \<and> map mp_player (mergeUnderdogProps P uprops defenseData) = map ud_playerName uprops
   \<and> map mp_team (mergeUnderdogProps P uprops defenseData) = map ud_team uprops
   \<and> map mp_opponent (mergeUnderdogProps P uprops defenseData) = map ud_opponent uprops
   \<and> map mp_stat (mergeUnderdogProps P uprops defenseData) = map ud_stat uprops
   \<and> map mp_line (mergeUnderdogProps P uprops defenseData) = map ud_line uprops
   \<and> mergeUnderdogProps P (uprops @ uprops2) defenseData
       = mergeUnderdogProps P uprops defenseData @ mergeUnderdogProps P uprops2 defenseData"
  by (simp add: mergePrizePicksProps_def mergeUnderdogProps_def mergePrizePicksRow_def
      mergeUnderdogRow_def comp_def)

text \<open>
  C6: without an opponent \<^verbatim>\<open>findDefenseStrength\<close> returns \<^verbatim>\<open>null\<close> whatever the defense
  data, and the merged row has \<^verbatim>\<open>NA\<close>; against an empty defense list every merged row has
  \<^verbatim>\<open>NA\<close>.
\<close>

theorem no_opponent_or_no_defense_is_NA:
  "findDefenseStrength P defenseData team [] statCategory = None
   \<and> mp_defenseStrength (mergePrizePicksRow P defenseData (prop\<lparr>pp_opponent := []\<rparr>))
       = js ''NA''
   \<and> mp_defenseStrength (mergeUnderdogRow P defenseData (uprop\<lparr>ud_opponent := []\<rparr>))
       = js ''NA''
   \<and> map mp_defenseStrength (mergePrizePicksProps P props [])
       = replicate (length props) (js ''NA'')
   \<and> map mp_defenseStrength (mergeUnderdogProps P uprops [])
       = replicate (length uprops) (js ''NA'')"
proof -
  have none: "findDefenseStrength P [] t opp st = None" for t opp st
    by (simp add: findDefenseStrength_def opponentMatchesOf_def)
  have "map mp_defenseStrength (mergePrizePicksProps P props [])
          = replicate (length props) (js ''NA'')"
    for props :: "'c PrizePicksProp list"
    by (induction props)
      (simp_all add: mergePrizePicksProps_def mergePrizePicksRow_def none orNA_def)
  moreover
  have "map mp_defenseStrength (mergeUnderdogProps P uprops [])
          = replicate (length uprops) (js ''NA'')"
    for uprops :: "'d UnderdogProp list"
    by (induction uprops)
      (simp_all add: mergeUnderdogProps_def mergeUnderdogRow_def none orNA_def)
  ultimately show ?thesis
    by (simp add: findDefenseStrength_def mergePrizePicksRow_def mergeUnderdogRow_def orNA_def)
qed

text \<open>
  C10: a defense strength other than \<^verbatim>\<open>NA\<close> in a merged row, of either merge function, is
  the rank of a record of the defense list whose normalized opponent is the normalized
  opponent of the prop. This holds on every platform, for strings of any characters.
\<close>

theorem matched_rank_is_of_the_opponent:
  "(i < length props
      \<and> mp_defenseStrength (mergePrizePicksProps P props defenseData ! i) \<noteq> js ''NA''
    \<longrightarrow> (\<exists>d\<in>set defenseData.
           dd_rank d = mp_defenseStrength (mergePrizePicksProps P props defenseData ! i)
           \<and> normalizeTeamForMatching P (dd_opponent d)
               = normalizeTeamForMatching P (pp_opponent (props ! i))))
   \<and> (j < length uprops
      \<and> mp_defenseStrength (mergeUnderdogProps P uprops defenseData ! j) \<noteq> js ''NA''
    \<longrightarrow> (\<exists>d\<in>set defenseData.
           dd_rank d = mp_defenseStrength (mergeUnderdogProps P uprops defenseData ! j)
           \<and> normalizeTeamForMatching P (dd_opponent d)
               = normalizeTeamForMatching P (ud_opponent (uprops ! j))))"
proof (intro conjI impI)
  assume a: "i < length props
      \<and> mp_defenseStrength (mergePrizePicksProps P props defenseData ! i) \<noteq> js ''NA''"
  let ?p = "props ! i"
  let ?r = "findDefenseStrength P defenseData (pp_team ?p) (pp_opponent ?p) (pp_statCategory ?p)"
  from a have row: "mp_defenseStrength (mergePrizePicksProps P props defenseData ! i) = orNA ?r"
    by (simp add: mergePrizePicksProps_def mergePrizePicksRow_def)
  with a have "?r = Some (orNA ?r)"
    by (simp add: orNA_not_NA)
  from findDefenseStrength_from_opponent [OF this] row
  show "\<exists>d\<in>set defenseData.
           dd_rank d = mp_defenseStrength (mergePrizePicksProps P props defenseData ! i)
           \<and> normalizeTeamForMatching P (dd_opponent d)
               = normalizeTeamForMatching P (pp_opponent (props ! i))"
    by simp
next
  assume a: "j < length uprops
      \<and> mp_defenseStrength (mergeUnderdogProps P uprops defenseData ! j) \<noteq> js ''NA''"
  let ?p = "uprops ! j"
  let ?r = "findDefenseStrength P defenseData (ud_team ?p) (ud_opponent ?p) (ud_stat ?p)"
  from a have row: "mp_defenseStrength (mergeUnderdogProps P uprops defenseData ! j) = orNA ?r"
    by (simp add: mergeUnderdogProps_def mergeUnderdogRow_def)
  with a have "?r = Some (orNA ?r)"
    by (simp add: orNA_not_NA)
  from findDefenseStrength_from_opponent [OF this] row
  show "\<exists>d\<in>set defenseData.
           dd_rank d = mp_defenseStrength (mergeUnderdogProps P uprops defenseData ! j)
           \<and> normalizeTeamForMatching P (dd_opponent d)
               = normalizeTeamForMatching P (ud_opponent (uprops ! j))"
    by simp
qed

theorem matched_rank_is_of_the_opponent_witness:
  "(0::nat) < length [mkPrize ''BOS'' ''TOR'' ''SOG'' 2.5]
   \<and> mp_defenseStrength
        (mergePrizePicksProps asciiPlatform [mkPrize ''BOS'' ''TOR'' ''SOG'' 2.5]
           [mkDefense ''BOS'' ''TOR'' ''Shots on Goal'' ''25th''] ! 0) \<noteq> js ''NA''
   \<and> (0::nat) < length [mkUnderdog ''BOS'' ''TOR'' ''Shots'' 2.5]
   \<and> mp_defenseStrength
        (mergeUnderdogProps asciiPlatform [mkUnderdog ''BOS'' ''TOR'' ''Shots'' 2.5]
           [mkDefense ''BOS'' ''TOR'' ''Shots on Goal'' ''25th''] ! 0) \<noteq> js ''NA''
   \<and> (\<exists>d\<in>set [mkDefense ''BOS'' ''TOR'' ''Shots on Goal'' ''25th''].
         dd_rank d = js ''25th''
         \<and> normalizeTeamForMatching asciiPlatform (dd_opponent d)
             = normalizeTeamForMatching asciiPlatform (js ''TOR''))"
proof -
  let ?props = "[mkPrize ''BOS'' ''TOR'' ''SOG'' 2.5]"
  let ?uprops = "[mkUnderdog ''BOS'' ''TOR'' ''Shots'' 2.5]"
  let ?dd = "[mkDefense ''BOS'' ''TOR'' ''Shots on Goal'' ''25th'']"
  have a: "(0::nat) < length ?props" and a': "(0::nat) < length ?uprops" by simp_all
  have v: "mp_defenseStrength (mergePrizePicksProps asciiPlatform ?props ?dd ! 0) = js ''25th''"
    and v': "mp_defenseStrength (mergeUnderdogProps asciiPlatform ?uprops ?dd ! 0) = js ''25th''"
    and n: "js ''25th'' \<noteq> js ''NA''"
    by code_simp+
  from v n have b: "mp_defenseStrength (mergePrizePicksProps asciiPlatform ?props ?dd ! 0) \<noteq> js ''NA''"
    by simp
  from v' n have b': "mp_defenseStrength (mergeUnderdogProps asciiPlatform ?uprops ?dd ! 0) \<noteq> js ''NA''"
    by simp
  have o: "pp_opponent (?props ! 0) = js ''TOR''"
    by (simp add: mkPrize_def)
  from matched_rank_is_of_the_opponent [of 0 ?props asciiPlatform ?dd 0 ?uprops] a a' b b' v o
  show ?thesis
    by simp
qed

section \<open>Properties of the canonicalizers\<close>

lemma dropWhile_fixed: "xs = [] \<or> \<not> Q (hd xs) \<Longrightarrow> dropWhile Q xs = xs"
  by (cases xs) auto

lemma hd_dropWhile_or_Nil: "dropWhile Q xs = [] \<or> \<not> Q (hd (dropWhile Q xs))"
  by (metis hd_dropWhile)

lemma last_dropWhile: "dropWhile Q xs \<noteq> [] \<Longrightarrow> last (dropWhile Q xs) = last xs"
  by (induction xs) (auto split: if_splits)

lemma trimJS_idem: "trimJS (trimJS s) = trimJS s"
proof -
  let ?a = "dropWhile isSpaceJS s"
  let ?b = "dropWhile isSpaceJS (rev ?a)"
  have b: "?b = [] \<or> \<not> isSpaceJS (hd ?b)" by (rule hd_dropWhile_or_Nil)
  have "rev ?b = [] \<or> \<not> isSpaceJS (hd (rev ?b))"
  proof (cases "?b = []")
    case True
    then show ?thesis by simp
  next
    case False
    then have "last ?b = last (rev ?a)" by (rule last_dropWhile)
    moreover have a: "?a \<noteq> []"
    proof
      assume "?a = []"
      then have "?b = []" by (simp del: dropWhile_eq_Nil_conv)
      with False show False by simp
    qed
    then have "\<not> isSpaceJS (hd ?a)" using hd_dropWhile_or_Nil [of isSpaceJS s] by blast
    moreover from a have "last (rev ?a) = hd ?a" by (simp add: last_rev del: dropWhile_eq_Nil_conv)
    ultimately show ?thesis using False by (simp add: hd_rev del: dropWhile_eq_Nil_conv)
  qed
  then have 1: "dropWhile isSpaceJS (rev ?b) = rev ?b" by (rule dropWhile_fixed)
  from b have 2: "dropWhile isSpaceJS ?b = ?b" by (rule dropWhile_fixed)
  show ?thesis
    unfolding trimJS_def by (simp add: 1 2)
qed

lemma set_trimJS: "set (trimJS s) \<subseteq> set s"
  unfolding trimJS_def
  by (metis set_dropWhileD set_rev subsetI)

lemma trimJS_no_space:
  assumes "\<forall>c\<in>set s. \<not> isSpaceJS c"
  shows "trimJS s = s"
proof -
  from assms have "dropWhile isSpaceJS s = s"
    by (cases s) simp_all
  moreover from assms have "dropWhile isSpaceJS (rev s) = rev s"
    by (cases "rev s") (simp, metis dropWhile.simps(2) list.set_intros(1) set_rev)
  ultimately show ?thesis by (simp add: trimJS_def)
qed

lemma upper_alpha_no_space: "isUpperAlpha c \<Longrightarrow> \<not> isSpaceJS c"
  by (auto simp: isUpperAlpha_def isSpaceJS_def)

text \<open>Under the laws of upper-casing, the key that a team canonicalizer looks up.\<close>

lemma upper_trimmed_fixed:
  assumes "upperCaseLaws P"
  shows "trimJS (toUpperCase P (trimJS (toUpperCase P s))) = trimJS (toUpperCase P s)"
  using assms by (simp add: upperCaseLaws_def trimJS_idem)

lemma prototype_keys_lower: "list_all (list_ex isLowerAlpha) objectPrototypeKeys"
  by code_simp

lemma upper_not_prototype_key:
  assumes "upperCaseLaws P"
  shows "trimJS (toUpperCase P s) \<notin> set objectPrototypeKeys"
proof
  assume "trimJS (toUpperCase P s) \<in> set objectPrototypeKeys"
  with prototype_keys_lower obtain c
    where c: "c \<in> set (trimJS (toUpperCase P s))" "isLowerAlpha c"
    by (auto simp: list_all_iff list_ex_iff)
  from c(1) set_trimJS have "c \<in> set (toUpperCase P s)" by blast
  with assms c(2) show False by (auto simp: upperCaseLaws_def)
qed

lemma upper_word_fixed:
  assumes "upperCaseLaws P" and "list_all isUpperAlpha v"
  shows "trimJS (toUpperCase P v) = v"
proof -
  from assms have "toUpperCase P v = v" by (simp add: upperCaseLaws_def)
  moreover from assms(2) have "trimJS v = v"
    by (intro trimJS_no_space) (auto simp: list_all_iff upper_alpha_no_space)
  ultimately show ?thesis by simp
qed

lemma teamMap_values:
  "list_all (\<lambda>v. v \<noteq> [] \<and> list_all isUpperAlpha v \<and> map_of teamMap v = Some v)
     (map snd teamMap)"
  by code_simp

lemma teamVariations_values:
  "list_all (\<lambda>v. v \<noteq> [] \<and> list_all isUpperAlpha v \<and> map_of teamVariations v = Some v)
     (map snd teamVariations)"
  by code_simp

lemma statMap_values: "list_all (\<lambda>v. v \<noteq> [] \<and> normalizeStatType v = JStr v) (map snd statMap)"
  by code_simp

lemma statMap_inherited:
  "list_all (\<lambda>k. objectGet statMap (inheritedToString k) = None) objectPrototypeKeys"
  by code_simp

lemma map_of_value: "map_of table k = Some v \<Longrightarrow> v \<in> set (map snd table)"
  by (force dest: map_of_SomeD)

lemma upper_lookup_fixed:
  assumes laws: "upperCaseLaws P"
    and vals: "list_all (\<lambda>v. v \<noteq> [] \<and> list_all isUpperAlpha v \<and> map_of table v = Some v)
                 (map snd table)"
    and f: "\<And>s. f s = objectGetOr table (trimJS (toUpperCase P s)) (trimJS (toUpperCase P s))"
  shows "\<exists>w. f x = JStr w \<and> f w = JStr w"
proof (cases "map_of table (trimJS (toUpperCase P x))")
  case None
  then have "f s = JStr (trimJS (toUpperCase P x))"
    if "trimJS (toUpperCase P s) = trimJS (toUpperCase P x)" for s
    using that by (simp add: f objectGetOr_def objectGet_def upper_not_prototype_key [OF laws])
  then show ?thesis
    using upper_trimmed_fixed [OF laws, of x] by blast
next
  case (Some v)
  then have "v \<in> set (map snd table)" by (rule map_of_value)
  with vals have v: "v \<noteq> []" "list_all isUpperAlpha v" "map_of table v = Some v"
    by (auto simp: list_all_iff)
  from Some v(1) have "f x = JStr v"
    by (simp add: f objectGetOr_def objectGet_def)
  moreover from v have "f v = JStr v"
    by (simp add: f upper_word_fixed [OF laws] objectGetOr_def objectGet_def)
  ultimately show ?thesis by blast
qed

lemma normalizeTeamName_fixed:
  "upperCaseLaws P \<Longrightarrow> \<exists>w. normalizeTeamName P x = JStr w \<and> normalizeTeamName P w = JStr w"
  by (rule upper_lookup_fixed [OF _ teamMap_values]) (simp_all add: normalizeTeamName_def Let_def)

lemma normalizeTeamForMatching_fixed:
  "upperCaseLaws P \<Longrightarrow>
     \<exists>w. normalizeTeamForMatching P x = JStr w \<and> normalizeTeamForMatching P w = JStr w"
  by (rule upper_lookup_fixed [OF _ teamVariations_values])
    (simp_all add: normalizeTeamForMatching_def Let_def)

lemma normalizeStatType_cases:
  "normalizeStatType x =
     (case map_of statMap x of
        Some v \<Rightarrow> JStr v
      | None \<Rightarrow> if x \<in> set objectPrototypeKeys then JInherited x else JStr x)"
proof (cases "map_of statMap x")
  case None
  then show ?thesis
    by (simp add: normalizeStatType_def objectGetOr_def objectGet_def)
next
  case (Some v)
  then have "v \<in> set (map snd statMap)" by (rule map_of_value)
  with statMap_values have "v \<noteq> []" by (auto simp: list_all_iff)
  with Some show ?thesis
    by (simp add: normalizeStatType_def objectGetOr_def objectGet_def)
qed

lemma normalizeStatType_fixed:
  "normalizeStatTypeVal (normalizeStatType x) = normalizeStatType x"
proof (cases "map_of statMap x")
  case None
  show ?thesis
  proof (cases "x \<in> set objectPrototypeKeys")
    case True
    with statMap_inherited have "objectGet statMap (inheritedToString x) = None"
      by (auto simp: list_all_iff)
    with None True show ?thesis
      by (simp add: normalizeStatType_cases normalizeStatTypeVal_def)
  next
    case False
    with None show ?thesis
      by (simp add: normalizeStatType_cases normalizeStatTypeVal_def)
  qed
next
  case (Some v)
  then have "v \<in> set (map snd statMap)" by (rule map_of_value)
  with statMap_values have "normalizeStatType v = JStr v" by (auto simp: list_all_iff)
  with Some show ?thesis
    by (simp add: normalizeStatType_cases [of x] normalizeStatTypeVal_def)
qed

text \<open>The ASCII letter maps have the properties asked of upper-casing.\<close>

lemma asciiUpperChar_not_lower: "\<not> isLowerAlpha (asciiUpperChar c)"
  by (auto simp: asciiUpperChar_def isLowerAlpha_def)

lemma asciiUpperChar_space: "isSpaceJS (asciiUpperChar c) = isSpaceJS c"
  by (auto simp: asciiUpperChar_def isLowerAlpha_def isSpaceJS_def)

lemma asciiUpperChar_idem: "asciiUpperChar (asciiUpperChar c) = asciiUpperChar c"
  using asciiUpperChar_not_lower [of c] by (simp add: asciiUpperChar_def [of "asciiUpperChar c"])

lemma dropWhile_space_upper:
  "dropWhile isSpaceJS (map asciiUpperChar s) = map asciiUpperChar (dropWhile isSpaceJS s)"
  by (induction s) (simp_all add: asciiUpperChar_space)

lemma asciiUpperCase_trimJS: "asciiUpperCase (trimJS s) = trimJS (asciiUpperCase s)"
  by (simp add: asciiUpperCase_def trimJS_def rev_map dropWhile_space_upper)

lemma asciiUpperCase_upper: "list_all isUpperAlpha s \<Longrightarrow> asciiUpperCase s = s"
  by (induction s) (auto simp: asciiUpperCase_def asciiUpperChar_def isUpperAlpha_def isLowerAlpha_def)

lemma upperCaseLaws_asciiPlatform: "upperCaseLaws asciiPlatform"
  by (simp add: upperCaseLaws_def asciiPlatform_def asciiUpperCase_trimJS asciiUpperCase_upper)
    (simp add: asciiUpperCase_def asciiUpperChar_idem asciiUpperChar_not_lower)

text \<open>
  C7: the team canonicalizers of the PrizePicks scraper and of the join and the statistic
  canonicalizer of the PrizePicks scraper have no failing branch on a string, the team
  canonicalizers return a string, and each of the three applied to its own result returns
  that result again, without raising. For the team canonicalizers this rests on the
  stated properties of \<^verbatim>\<open>toUpperCase()\<close>; the input is any string.
\<close>

theorem canonicalizers_idempotent:
  assumes "upperCaseLaws P"
  shows "(\<exists>w. normalizeTeamName P x = JStr w)
   \<and> normalizeTeamNameVal P (normalizeTeamName P x) = Inr (normalizeTeamName P x)
   \<and> (\<exists>w. normalizeTeamForMatching P x = JStr w)
   \<and> normalizeTeamForMatchingVal P (normalizeTeamForMatching P x)
       = Inr (normalizeTeamForMatching P x)
   \<and> normalizeStatTypeVal (normalizeStatType x) = normalizeStatType x"
proof -
  obtain w where "normalizeTeamName P x = JStr w" "normalizeTeamName P w = JStr w"
    using normalizeTeamName_fixed [OF assms] by blast
  moreover
  obtain u where "normalizeTeamForMatching P x = JStr u" "normalizeTeamForMatching P u = JStr u"
    using normalizeTeamForMatching_fixed [OF assms] by blast
  ultimately show ?thesis
    by (simp add: normalizeTeamNameVal_def normalizeTeamForMatchingVal_def normalizeStatType_fixed)
qed

theorem canonicalizers_idempotent_witness:
  "upperCaseLaws asciiPlatform
   \<and> normalizeTeamName asciiPlatform (js '' atl '') = JStr (js ''WPG'')
   \<and> normalizeTeamNameVal asciiPlatform (normalizeTeamName asciiPlatform (js '' atl ''))
       = Inr (JStr (js ''WPG''))
   \<and> normalizeTeamForMatching asciiPlatform (js '' atl '') = JStr (js ''ATL'')
   \<and> normalizeTeamForMatchingVal asciiPlatform (normalizeTeamForMatching asciiPlatform (js '' atl ''))
       = Inr (JStr (js ''ATL''))
   \<and> normalizeStatTypeVal (normalizeStatType (js '' atl '')) = JStr (js '' atl '')"
proof -
  have a: "normalizeTeamName asciiPlatform (js '' atl '') = JStr (js ''WPG'')"
    and b: "normalizeTeamForMatching asciiPlatform (js '' atl '') = JStr (js ''ATL'')"
    and c: "normalizeStatType (js '' atl '') = JStr (js '' atl '')"
    by code_simp+
  from canonicalizers_idempotent [OF upperCaseLaws_asciiPlatform, of "js '' atl ''"]
    upperCaseLaws_asciiPlatform a b c
  show ?thesis by simp
qed

text \<open>
  C8, as stated: two inputs that differ only in letter case get the same category. The
  lookup is by the exact spelling of the key: \<^verbatim>\<open>SOG\<close> is a key, \<^verbatim>\<open>sog\<close> is none and is
  passed through.
\<close>

theorem normalizeStatType_case_counterexample:
  "asciiLowerCase (js ''SOG'') = asciiLowerCase (js ''sog'')
   \<and> normalizeStatType (js ''SOG'') = JStr (js ''Shots on Goal'')
   \<and> normalizeStatType (js ''sog'') = JStr (js ''sog'')"
  by code_simp

text \<open>
  C8, amended: the lookup is exact in letter case. For an input without surrounding white
  space that is not the name of an inherited member of the table object, the result is
  the category stored under exactly that spelling, and the input itself, unchanged, when
  the table has no such key.
\<close>

theorem normalizeStatType_exact_lookup:
  assumes "trimJS x = x" and "x \<notin> set objectPrototypeKeys"
  shows "normalizeStatType x = JStr (case map_of statMap x of Some v \<Rightarrow> v | None \<Rightarrow> x)"
  using assms(2) by (simp add: normalizeStatType_cases split: option.splits)

theorem normalizeStatType_exact_lookup_witness:
  "trimJS (js ''sog'') = js ''sog'' \<and> js ''sog'' \<notin> set objectPrototypeKeys
   \<and> normalizeStatType (js ''sog'') = JStr (js ''sog'')
   \<and> trimJS (js ''SOG'') = js ''SOG'' \<and> js ''SOG'' \<notin> set objectPrototypeKeys
   \<and> normalizeStatType (js ''SOG'') = JStr (js ''Shots on Goal'')"
proof -
  have a: "trimJS (js ''sog'') = js ''sog''" and b: "js ''sog'' \<notin> set objectPrototypeKeys"
    and c: "trimJS (js ''SOG'') = js ''SOG''" and d: "js ''SOG'' \<notin> set objectPrototypeKeys"
    by code_simp+
  have e: "map_of statMap (js ''sog'') = None"
    and f: "map_of statMap (js ''SOG'') = Some (js ''Shots on Goal'')"
    by code_simp+
  from normalizeStatType_exact_lookup [OF a b] normalizeStatType_exact_lookup [OF c d] a b c d e f
  show ?thesis by simp
qed

section \<open>Properties of the extraction\<close>

lemma positionPass_unfiltered:
  "filter isUnfiltered (snd (positionPass page st p)) = filter isUnfiltered (snd st)"
  by (cases st) (simp add: positionPass_def isUnfiltered_def split: option.splits)

lemma foldl_positionPass_unfiltered:
  "filter isUnfiltered (snd (foldl (positionPass page) st ps)) = filter isUnfiltered (snd st)"
  by (induction ps arbitrary: st) (simp_all add: positionPass_unfiltered)

lemma positionPasses_unfiltered: "filter isUnfiltered (snd (positionPasses page)) = []"
  by (simp add: positionPasses_def foldl_positionPass_unfiltered)

lemma positionPass_in_band:
  assumes "\<forall>row\<in>set (fst st). isRankInRange (row_rank row)"
  shows "\<forall>row\<in>set (fst (positionPass page st p)). isRankInRange (row_rank row)"
  using assms by (cases st) (auto simp: positionPass_def split: option.splits)

lemma foldl_positionPass_in_band:
  assumes "\<forall>row\<in>set (fst st). isRankInRange (row_rank row)"
  shows "\<forall>row\<in>set (fst (foldl (positionPass page) st ps)). isRankInRange (row_rank row)"
  using assms
proof (induction ps arbitrary: st)
  case Nil
  then show ?case by simp
next
  case (Cons p ps)
  from Cons.IH [OF positionPass_in_band [OF Cons.prems]] show ?case by simp
qed

lemma positionPasses_in_band:
  "\<forall>row\<in>set (fst (positionPasses page)). isRankInRange (row_rank row)"
  unfolding positionPasses_def by (rule foldl_positionPass_in_band) simp

lemma filtered_paths_in_band:
  assumes "OriginalExtract \<notin> set (snd (scrapeDefenseData page playerUrl team opponent gameTime))"
  shows "\<forall>d\<in>set (fst (scrapeDefenseData page playerUrl team opponent gameTime)). isRankInRange (sd_rank d)"
proof (cases "page_setup page")
  case False
  then show ?thesis by (simp add: scrapeDefenseData_def)
next
  case True
  obtain rows0 log0 where st: "positionPasses page = (rows0, log0)"
    by (cases "positionPasses page")
  from positionPasses_in_band [of page] st
  have band: "\<forall>row\<in>set rows0. isRankInRange (row_rank row)" by simp
  from assms True st band show ?thesis
    by (auto simp: scrapeDefenseData_def afterPasses_def toScraped_def Let_def
        split: option.splits if_splits)
qed

text \<open>
  C1: every record that \<^verbatim>\<open>scrapeDefenseData\<close> returns has a rank in the band 24 to 32. The
  position passes and the extraction after the loop filter their rows with
  \<^verbatim>\<open>isRankInRange\<close> (lemma \<open>filtered_paths_in_band\<close>); the original extraction pushes its
  rows without the filter. On a page that shows only \<^verbatim>\<open>Hits 12th\<close> the filtered paths keep
  nothing, the original extraction runs, and the record with rank 12th is returned.
\<close>

theorem original_extraction_keeps_rank_outside_band:
  "fst (scrapeDefenseData pageHits12 (js ''/players/nhl/1'') (js ''BOS'') (js ''TOR'') (js ''7:00 PM''))
     = [\<lparr> sd_team = js ''BOS'', sd_opponent = js ''TOR'', sd_gameTime = js ''7:00 PM'',
          sd_stat = js ''Hits'', sd_rank = js ''12th'' \<rparr>]
   \<and> \<not> isRankInRange (js ''12th'')"
  by code_simp

text \<open>
  C9, as stated: when the position passes produce no record, exactly one unfiltered
  extraction is attempted. On the page without rows the position passes produce nothing
  and two unfiltered extractions are attempted, the extraction after the loop and the
  original extraction.
\<close>

theorem two_unfiltered_attempts_counterexample:
  "fst (positionPasses pageEmpty) = []
   \<and> unfilteredAttempts
        (scrapeDefenseData pageEmpty (js ''/players/nhl/1'') (js ''BOS'') (js ''TOR'') (js ''7:00 PM''))
       = [UnfilteredExtract, OriginalExtract]"
  by code_simp

text \<open>
  C9, amended: in a run that reaches the position passes, no unfiltered extraction is
  attempted when the passes produced a record; when they produced none, the extractor is
  called once more without a position, and if that call returns no rank in the band, the
  page settles and is still open, the original extraction is attempted once as well;
  nothing is attempted after that.
\<close>

theorem unfiltered_attempts_of_run:
  assumes "page_setup page"
  shows "unfilteredAttempts (scrapeDefenseData page playerUrl team opponent gameTime) =
           (if fst (positionPasses page) \<noteq> [] then []
            else if originalReached page then [UnfilteredExtract, OriginalExtract]
            else [UnfilteredExtract])"
proof -
  obtain rows0 log0 where st: "positionPasses page = (rows0, log0)"
    by (cases "positionPasses page")
  from positionPasses_unfiltered [of page] st
  have log0: "filter isUnfiltered log0 = []" by simp
  from assms st log0 show ?thesis
    by (auto simp: unfilteredAttempts_def scrapeDefenseData_def afterPasses_def
        originalReached_def isUnfiltered_def Let_def split: option.splits)
qed

theorem unfiltered_attempts_of_run_witness:
  "page_setup pageHits12
   \<and> fst (positionPasses pageHits12) = []
   \<and> originalReached pageHits12
   \<and> unfilteredAttempts
        (scrapeDefenseData pageHits12 (js ''/players/nhl/1'') (js ''BOS'') (js ''TOR'') (js ''7:00 PM''))
       = [UnfilteredExtract, OriginalExtract]"
proof -
  have a: "page_setup pageHits12" by (simp add: pageHits12_def)
  have b: "fst (positionPasses pageHits12) = []" by code_simp
  have c: "originalReached pageHits12" by code_simp
  from unfiltered_attempts_of_run
         [OF a, of "js ''/players/nhl/1''" "js ''BOS''" "js ''TOR''" "js ''7:00 PM''"] a b c
  show ?thesis by simp
qed

lemma digits_no_ordinal_text:
  assumes "list_all isDigit ds"
  shows "\<not> hasOrdinalText ds"
proof -
  have lower: "asciiLowerCase ds = ds"
    using assms
    by (induction ds) (auto simp: asciiLowerCase_def asciiLowerChar_def isDigit_def isUpperAlpha_def)
  have no: "\<not> includesJS ds t" if "list_ex (\<lambda>c. \<not> isDigit c) t" for t
  proof
    assume "includesJS ds t"
    then have "set t \<subseteq> set ds"
      by (simp only: includesJS_sublist set_mono_sublist)
    with assms that show False by (auto simp: list_all_iff list_ex_iff)
  qed
  have "list_all (list_ex (\<lambda>c. \<not> isDigit c)) [js ''th'', js ''st'', js ''nd'', js ''rd'']"
    by code_simp
  then show ?thesis
    by (simp add: hasOrdinalText_def lower no Let_def)
qed

lemma normalizeRank_digits:
  assumes "ds \<noteq> []" and "list_all isDigit ds"
  shows "normalizeRank ds = ds @ js ''th''"
proof -
  from assms have ex: "list_ex isDigit ds"
    by (cases ds) simp_all
  from assms(2) have all: "\<forall>c\<in>set ds. isDigit c" by (simp add: list_all_iff)
  then have "takeWhile isDigit ds = ds" "dropWhile isDigit ds = []"
    by simp_all
  moreover from assms have "dropWhile (\<lambda>c. \<not> isDigit c) ds = ds" "takeWhile (\<lambda>c. \<not> isDigit c) ds = []"
    by (cases ds; simp)+
  ultimately show ?thesis
    using ex digits_no_ordinal_text [OF assms(2)]
    by (simp add: normalizeRank_def appendThToFirstDigits_def firstDigits_def)
qed

text \<open>
  C2: a rank text with digits and no ordinal suffix gets the suffix of the English rule.
  The code appends \<^verbatim>\<open>th\<close> to the first run of digits whatever the number (lemma
  \<open>normalizeRank_digits\<close>), so 24, 11 and 13 come out as the claim says and 21, 22 and
  23 do not.
\<close>

theorem normalizeRank_always_th:
  "normalizeRank (js ''21'') = js ''21th'' \<and> ordinalSuffix 21 = js ''st''
   \<and> normalizeRank (js ''22'') = js ''22th'' \<and> ordinalSuffix 22 = js ''nd''
   \<and> normalizeRank (js ''23'') = js ''23th'' \<and> ordinalSuffix 23 = js ''rd''
   \<and> normalizeRank (js ''24'') = js ''24th'' \<and> normalizeRank (js ''11'') = js ''11th''
   \<and> normalizeRank (js ''13'') = js ''13th''"
  by code_simp

end
